theory Spec2Isabelle
  imports Complex_Main "HOL-Library.Sublist" "HOL-Library.Multiset" "HOL-Library.AList"
begin

section \<open>JavaScript numbers\<close>

text \<open>
  A JavaScript \<^verbatim>\<open>number\<close> is an IEEE double. The model keeps the three special values
  apart and takes every finite value as an exact rational: \<open>Num r\<close>. Division by zero,
  \<open>NaN\<close> propagation and \<^verbatim>\<open>Math.round\<close> (half towards plus infinity) are modelled;
  the rounding of the last binary digit and the sign of zero are not. So an award
  such as two thirds of 10 is \<open>20 / 3\<close> here and the nearest double in the program,
  and where a double product falls just short of a tie that the exact product hits
  (seven tenths of 45 is 31.499999999999996 in doubles) \<^verbatim>\<open>Math.round\<close> yields one
  less in the program than in the model.
\<close>

datatype number = Num rat | NaN | PosInf | NegInf

fun js_add :: "number \<Rightarrow> number \<Rightarrow> number" where
  "js_add (Num a) (Num b) = Num (a + b)"
| "js_add NaN _ = NaN"
| "js_add _ NaN = NaN"
| "js_add PosInf NegInf = NaN"
| "js_add NegInf PosInf = NaN"
| "js_add PosInf _ = PosInf"
| "js_add _ PosInf = PosInf"
| "js_add NegInf _ = NegInf"
| "js_add _ NegInf = NegInf"

fun js_neg :: "number \<Rightarrow> number" where
  "js_neg (Num a) = Num (- a)"
| "js_neg NaN = NaN"
| "js_neg PosInf = NegInf"
| "js_neg NegInf = PosInf"

definition js_sub :: "number \<Rightarrow> number \<Rightarrow> number" where
  "js_sub x y = js_add x (js_neg y)"

text \<open>The sign of a product or quotient with an infinite operand.\<close>

definition signed_inf :: "bool \<Rightarrow> number" where
  "signed_inf positive = (if positive then PosInf else NegInf)"

fun js_mul :: "number \<Rightarrow> number \<Rightarrow> number" where
  "js_mul (Num a) (Num b) = Num (a * b)"
| "js_mul NaN _ = NaN"
| "js_mul _ NaN = NaN"
| "js_mul (Num a) PosInf = (if a = 0 then NaN else signed_inf (0 < a))"
| "js_mul (Num a) NegInf = (if a = 0 then NaN else signed_inf (a < 0))"
| "js_mul PosInf (Num b) = (if b = 0 then NaN else signed_inf (0 < b))"
| "js_mul NegInf (Num b) = (if b = 0 then NaN else signed_inf (b < 0))"
| "js_mul PosInf PosInf = PosInf"
| "js_mul NegInf NegInf = PosInf"
| "js_mul PosInf NegInf = NegInf"
| "js_mul NegInf PosInf = NegInf"

fun js_div :: "number \<Rightarrow> number \<Rightarrow> number" where
  "js_div (Num a) (Num b) =
     (if b \<noteq> 0 then Num (a / b) else if a = 0 then NaN else signed_inf (0 < a))"
| "js_div NaN _ = NaN"
| "js_div _ NaN = NaN"
| "js_div (Num a) PosInf = Num 0"
| "js_div (Num a) NegInf = Num 0"
| "js_div PosInf (Num b) = signed_inf (0 \<le> b)"
| "js_div NegInf (Num b) = signed_inf (b < 0)"
| "js_div PosInf PosInf = NaN"
| "js_div PosInf NegInf = NaN"
| "js_div NegInf PosInf = NaN"
| "js_div NegInf NegInf = NaN"

text \<open>\<^verbatim>\<open>Math.min\<close> and \<^verbatim>\<open>Math.max\<close> of two arguments: \<open>NaN\<close> if either is.\<close>

fun js_min :: "number \<Rightarrow> number \<Rightarrow> number" where
  "js_min (Num a) (Num b) = Num (min a b)"
| "js_min NaN _ = NaN"
| "js_min _ NaN = NaN"
| "js_min NegInf _ = NegInf"
| "js_min _ NegInf = NegInf"
| "js_min PosInf y = y"
| "js_min x PosInf = x"

fun js_max :: "number \<Rightarrow> number \<Rightarrow> number" where
  "js_max (Num a) (Num b) = Num (max a b)"
| "js_max NaN _ = NaN"
| "js_max _ NaN = NaN"
| "js_max PosInf _ = PosInf"
| "js_max _ PosInf = PosInf"
| "js_max NegInf y = y"
| "js_max x NegInf = x"

text \<open>\<^verbatim>\<open>Math.round\<close>: the nearest integer, a tie going up; special values are kept.\<close>

fun js_round :: "number \<Rightarrow> number" where
  "js_round (Num a) = Num (of_int (round a))"
| "js_round x = x"

text \<open>
  \<^verbatim>\<open>JSON.stringify\<close> writes \<open>NaN\<close> and the infinities as \<^verbatim>\<open>null\<close>, so a special value
  that went through the store reads back as \<^verbatim>\<open>null\<close>, which arithmetic takes as 0.
  \<open>stored_value\<close> is the numeric value of a number field read from the store.
\<close>

fun stored_value :: "number \<Rightarrow> rat" where
  "stored_value (Num a) = a"
| "stored_value _ = 0"

section \<open>Strings\<close>

text \<open>
  Strings are lists of characters; \<^verbatim>\<open>toLowerCase\<close> is modelled on the ASCII letters and
  \<^verbatim>\<open>includes\<close> is the test for a contiguous occurrence.
\<close>

definition lower_char :: "char \<Rightarrow> char" where
  "lower_char c =
     (let n = (of_char c :: nat) in if 65 \<le> n \<and> n \<le> 90 then char_of (n + 32) else c)"

definition toLowerCase :: "string \<Rightarrow> string" where
  "toLowerCase s = map lower_char s"

fun includes_str :: "string \<Rightarrow> string \<Rightarrow> bool" where
  "includes_str [] k = (k = [])"
| "includes_str (c # cs) k = (prefix k (c # cs) \<or> includes_str cs k)"

fun join :: "string list \<Rightarrow> string \<Rightarrow> string" where
  "join [] sep = []"
| "join [x] sep = x"
| "join (x # y # ys) sep = x @ sep @ join (y # ys) sep"

section \<open>The data model (types/exam.ts)\<close>

datatype QuestionType = mcq | checkbox | descriptive

text \<open>A value of type \<^verbatim>\<open>string | string[]\<close>.\<close>

datatype AnswerValue = Str string | Arr "string list"

record Question =
  q_id :: string
  q_type :: QuestionType
  q_text :: string
  options :: "string list option"
  correctAnswer :: "AnswerValue option"
  q_keywords :: "string list option"
  marks :: rat
  co :: "string option"
  po :: "string option"

record Test =
  t_id :: string
  title :: string
  description :: string
  subject :: string
  duration :: rat
  totalMarks :: rat
  questions :: "Question list"
  isActive :: bool
  createdBy :: string
  createdAt :: nat
  instructions :: "string list"

record EvaluatedAnswer =
  isCorrect :: bool
  marksAwarded :: number
  feedback :: string

datatype AntiCheatEventType = tab_switch | copy_paste | right_click | fullscreen_exit

record AntiCheatEvent =
  e_id :: string
  e_type :: AntiCheatEventType
  timestamp :: nat
  details :: "string option"

record TestSubmission =
  s_id :: string
  testId :: string
  studentId :: string
  studentName :: string
  answers :: "string \<rightharpoonup> AnswerValue"
  score :: number
  s_totalMarks :: rat
  timeSpent :: rat
  submittedAt :: nat
  evaluatedAnswers :: "string \<rightharpoonup> EvaluatedAnswer"
  antiCheatEvents :: "AntiCheatEvent list"

record COPOMapping =
  courseOutcomes :: "string list"
  programOutcomes :: "string list"

section \<open>Automatic evaluation (services/examService.ts)\<close>

text \<open>
  \<^verbatim>\<open>userAnswer === question.correctAnswer\<close>: both sides are a string, an array or
  \<^verbatim>\<open>undefined\<close>. Strings compare by content, \<^verbatim>\<open>undefined\<close> equals itself, and two arrays
  are equal only when they are the same object, which an answer map and a test
  definition never share.
\<close>

fun strict_equal :: "AnswerValue option \<Rightarrow> AnswerValue option \<Rightarrow> bool" where
  "strict_equal (Some (Str a)) (Some (Str b)) = (a = b)"
| "strict_equal None None = True"
| "strict_equal _ _ = False"

text \<open>
  The body of the loop over the questions: the verdict for one question, given the
  entry of the answer map under its id (\<open>None\<close> when the key is absent). A
  \<^verbatim>\<open>Set\<close> built from an array is the array without its duplicates.
\<close>

definition evaluateQuestion :: "Question \<Rightarrow> AnswerValue option \<Rightarrow> EvaluatedAnswer" where
  "evaluateQuestion question userAnswer =
     (case q_type question of
        mcq \<Rightarrow>
          (let correct = strict_equal userAnswer (correctAnswer question)
           in \<lparr>isCorrect = correct,
               marksAwarded = (if correct then Num (marks question) else Num 0),
               feedback = []\<rparr>)
      | checkbox \<Rightarrow>
          (case (userAnswer, correctAnswer question) of
             (Some (Arr ua), Some (Arr ca)) \<Rightarrow>
               (let correctAnswers = remdups ca;
                    userAnswers = remdups ua;
                    correctSelected = length (filter (\<lambda>ans. ans \<in> set correctAnswers) userAnswers);
                    totalCorrect = length correctAnswers;
                    incorrectSelected = length userAnswers - correctSelected;
                    partialScore =
                      js_mul (js_div (Num (of_nat correctSelected)) (Num (of_nat totalCorrect)))
                        (Num (marks question));
                    penalty =
                      js_min (js_mul partialScore (Num (1 / 2)))
                        (js_mul (Num (of_nat incorrectSelected))
                           (js_div (Num (marks question)) (Num (of_nat totalCorrect))))
                in \<lparr>isCorrect = (correctSelected = totalCorrect \<and> incorrectSelected = 0),
                    marksAwarded = js_max (Num 0) (js_sub partialScore penalty),
                    feedback = []\<rparr>)
           | _ \<Rightarrow> \<lparr>isCorrect = False, marksAwarded = Num 0, feedback = []\<rparr>)
      | descriptive \<Rightarrow>
          (case (userAnswer, q_keywords question) of
             (Some (Str submitted), Some kws) \<Rightarrow>
               (let answerLower = toLowerCase submitted;
                    matchedKeywords =
                      filter (\<lambda>keyword. includes_str answerLower (toLowerCase keyword)) kws;
                    keywordScore =
                      js_mul (js_div (Num (of_nat (length matchedKeywords)))
                                (Num (of_nat (length kws))))
                        (Num (marks question))
                in \<lparr>isCorrect =
                      (of_nat (length kws) * (6 / 10 :: rat) \<le> of_nat (length matchedKeywords)),
                    marksAwarded = js_round keywordScore,
                    feedback = ''Keywords found: '' @ join matchedKeywords '', ''\<rparr>)
           | _ \<Rightarrow> \<lparr>isCorrect = False, marksAwarded = Num 0, feedback = []\<rparr>))"

text \<open>
  One turn of the loop: the verdict is stored under the question's id (a later
  question with the same id overwrites it) and its marks are added to the total.
\<close>

definition evaluateStep ::
  "(string \<rightharpoonup> AnswerValue) \<Rightarrow> number \<times> (string \<rightharpoonup> EvaluatedAnswer) \<Rightarrow> Question
     \<Rightarrow> number \<times> (string \<rightharpoonup> EvaluatedAnswer)" where
  "evaluateStep ans acc question =
     (let r = evaluateQuestion question (ans (q_id question))
      in (js_add (fst acc) (marksAwarded r), (snd acc)(q_id question \<mapsto> r)))"

record Evaluation =
  ev_score :: number
  ev_evaluatedAnswers :: "string \<rightharpoonup> EvaluatedAnswer"

definition evaluateAnswers :: "Test \<Rightarrow> (string \<rightharpoonup> AnswerValue) \<Rightarrow> Evaluation" where
  "evaluateAnswers test ans =
     (let acc = foldl (evaluateStep ans) (Num 0, Map.empty) (questions test)
      in \<lparr>ev_score = js_round (fst acc), ev_evaluatedAnswers = snd acc\<rparr>)"

section \<open>The store (services/examService.ts)\<close>

text \<open>
  The browser's local storage holds four items, each absent (\<open>None\<close>) or the parsed
  value of its JSON text. The field names are the storage keys. An item whose text
  does not parse, or parses to a value of another type, is outside the model; the
  notifications the functions raise are not part of the state.
\<close>

record Store =
  dsba_tests :: "Test list option"
  dsba_submissions :: "TestSubmission list option"
  dsba_copo :: "COPOMapping option"
  dsba_anticheat :: "AntiCheatEvent list option"

definition mock_q1 :: Question where
  "mock_q1 =
     \<lparr>q_id = ''q1'', q_type = mcq,
      q_text = ''Which data structure follows LIFO principle?'',
      options = Some [''Queue'', ''Stack'', ''Array'', ''Linked List''],
      correctAnswer = Some (Str ''Stack''), q_keywords = None, marks = 5,
      co = Some ''CO1'', po = Some ''PO1''\<rparr>"

definition mock_q2 :: Question where
  "mock_q2 =
     \<lparr>q_id = ''q2'', q_type = checkbox,
      q_text = ''Select all linear data structures:'',
      options = Some [''Array'', ''Tree'', ''Stack'', ''Graph'', ''Queue''],
      correctAnswer = Some (Arr [''Array'', ''Stack'', ''Queue'']), q_keywords = None,
      marks = 10, co = Some ''CO2'', po = Some ''PO2''\<rparr>"

definition mock_q3 :: Question where
  "mock_q3 =
     \<lparr>q_id = ''q3'', q_type = descriptive,
      q_text = ''Explain the advantages of linked lists over arrays.'',
      options = None, correctAnswer = None,
      q_keywords = Some [''dynamic'', ''memory'', ''insertion'', ''deletion'', ''flexible''],
      marks = 15, co = Some ''CO3'', po = Some ''PO3''\<rparr>"

definition mock_test :: Test where
  "mock_test =
     \<lparr>t_id = ''test-1'',
      title = ''Data Structures - First IA'',
      description = ''Internal Assessment covering Arrays, Linked Lists, and Stacks'',
      subject = ''Computer Science'',
      duration = 120,
      totalMarks = 40,
      questions = [mock_q1, mock_q2, mock_q3],
      isActive = True,
      createdBy = ''T001'',
      createdAt = 1705276800000,
      instructions =
        [''Read all questions carefully before starting'',
         ''Manage your time effectively'',
         ''Do not refresh the page during exam'',
         ''Anti-cheat measures are active'']\<rparr>"

definition mockTests :: "Test list" where
  "mockTests = [mock_test]"

definition mockCOPO :: COPOMapping where
  "mockCOPO =
     \<lparr>courseOutcomes =
        [''CO1: Understand basic data structures'',
         ''CO2: Implement linear data structures'',
         ''CO3: Analyze algorithm complexity'',
         ''CO4: Design efficient algorithms'',
         ''CO5: Apply data structures to solve problems''],
      programOutcomes =
        [''PO1: Engineering knowledge'',
         ''PO2: Problem analysis'',
         ''PO3: Design/development of solutions'',
         ''PO4: Conduct investigations'',
         ''PO5: Modern tool usage'']\<rparr>"

text \<open>Every absent item is written with its default; a present one is left alone.\<close>

definition initializeData :: "Store \<Rightarrow> Store" where
  "initializeData st =
     (let st1 = (if dsba_tests st = None then st\<lparr>dsba_tests := Some mockTests\<rparr> else st);
          st2 = (if dsba_submissions st1 = None then st1\<lparr>dsba_submissions := Some []\<rparr> else st1);
          st3 = (if dsba_copo st2 = None then st2\<lparr>dsba_copo := Some mockCOPO\<rparr> else st2)
      in if dsba_anticheat st3 = None then st3\<lparr>dsba_anticheat := Some []\<rparr> else st3)"

text \<open>
  Every accessor returns the store it leaves behind together with its result, since
  reading initialises the store first.
\<close>

definition getTests :: "Store \<Rightarrow> Store \<times> Test list" where
  "getTests st =
     (let st' = initializeData st
      in (st', case dsba_tests st' of None \<Rightarrow> [] | Some ts \<Rightarrow> ts))"

definition getTestById :: "Store \<Rightarrow> string \<Rightarrow> Store \<times> Test option" where
  "getTestById st ident =
     (let (st', tests) = getTests st in (st', find (\<lambda>test. t_id test = ident) tests))"

definition getSubmissions :: "Store \<Rightarrow> Store \<times> TestSubmission list" where
  "getSubmissions st =
     (let st' = initializeData st
      in (st', case dsba_submissions st' of None \<Rightarrow> [] | Some subs \<Rightarrow> subs))"

definition getSubmissionsByTest :: "Store \<Rightarrow> string \<Rightarrow> Store \<times> TestSubmission list" where
  "getSubmissionsByTest st tid =
     (let (st', subs) = getSubmissions st in (st', filter (\<lambda>sub. testId sub = tid) subs))"


text \<open>Decimal digits of a natural number, for the ids built from the clock.\<close>

fun string_of_nat :: "nat \<Rightarrow> string" where
  "string_of_nat n =
     (if n < 10 then [char_of (48 + n)]
      else string_of_nat (n div 10) @ [char_of (48 + n mod 10)])"

datatype error = Error string

text \<open>
  \<open>submitTest\<close> takes the clock reading \<open>now\<close> as an argument. A thrown \<open>Error\<close> is
  the left injection; the store returned with it is the store at the moment of the
  throw.
\<close>

definition submitTest ::
  "Store \<Rightarrow> nat \<Rightarrow> string \<Rightarrow> string \<Rightarrow> string \<Rightarrow> (string \<rightharpoonup> AnswerValue) \<Rightarrow> rat
     \<Rightarrow> AntiCheatEvent list \<Rightarrow> Store \<times> (error + TestSubmission)" where
  "submitTest st now tid sid sname ans spent evs =
     (let (st1, found) = getTestById st tid
      in case found of
           None \<Rightarrow> (st1, Inl (Error ''Test not found''))
         | Some test \<Rightarrow>
             (let ev = evaluateAnswers test ans;
                  submission =
                    \<lparr>s_id = ''sub-'' @ string_of_nat now,
                     testId = tid,
                     studentId = sid,
                     studentName = sname,
                     answers = ans,
                     score = ev_score ev,
                     s_totalMarks = totalMarks test,
                     timeSpent = spent,
                     submittedAt = now,
                     evaluatedAnswers = ev_evaluatedAnswers ev,
                     antiCheatEvents = evs\<rparr>;
                  (st2, submissions) = getSubmissions st1
              in (st2\<lparr>dsba_submissions := Some (submissions @ [submission])\<rparr>, Inr submission)))"

section \<open>Sorting an array with a comparator\<close>

text \<open>
  \<^verbatim>\<open>Array.prototype.sort\<close> is stable: of two elements that the comparator does not
  separate, the one that came first stays first. For a comparator that is a
  consistent ordering the result is therefore determined, and it is the one this
  insertion sort computes.
\<close>

fun insert_sorted :: "('a \<Rightarrow> 'a \<Rightarrow> 'b::{zero,ord}) \<Rightarrow> 'a \<Rightarrow> 'a list \<Rightarrow> 'a list" where
  "insert_sorted cmp x [] = [x]"
| "insert_sorted cmp x (y # ys) =
     (if cmp x y \<le> 0 then x # y # ys else y # insert_sorted cmp x ys)"

definition array_sort :: "('a \<Rightarrow> 'a \<Rightarrow> 'b::{zero,ord}) \<Rightarrow> 'a list \<Rightarrow> 'a list" where
  "array_sort cmp xs = foldr (insert_sorted cmp) xs []"

section \<open>Leaderboard (services/examService.ts)\<close>

record LeaderboardEntry =
  le_studentId :: string
  le_studentName :: string
  le_score :: number
  le_totalMarks :: rat
  le_percentage :: number
  rank :: nat
  le_timeSpent :: rat
  le_submittedAt :: nat

text \<open>
  The comparator \<^verbatim>\<open>b.score - a.score || a.timeSpent - b.timeSpent\<close>. The scores come
  from the store, so each is read through \<open>stored_value\<close>.
\<close>

definition leaderboard_compare :: "LeaderboardEntry \<Rightarrow> LeaderboardEntry \<Rightarrow> rat" where
  "leaderboard_compare a b =
     (let d = stored_value (le_score b) - stored_value (le_score a)
      in if d \<noteq> 0 then d else le_timeSpent a - le_timeSpent b)"

definition leaderboard_entry :: "nat \<times> TestSubmission \<Rightarrow> LeaderboardEntry" where
  "leaderboard_entry p =
     (case p of (index, sub) \<Rightarrow>
        \<lparr>le_studentId = studentId sub,
         le_studentName = studentName sub,
         le_score = score sub,
         le_totalMarks = s_totalMarks sub,
         le_percentage =
           js_round (js_mul (js_div (Num (stored_value (score sub))) (Num (s_totalMarks sub)))
                       (Num 100)),
         rank = index + 1,
         le_timeSpent = timeSpent sub,
         le_submittedAt = submittedAt sub\<rparr>)"

definition assign_rank :: "nat \<times> LeaderboardEntry \<Rightarrow> LeaderboardEntry" where
  "assign_rank p = (case p of (index, entry) \<Rightarrow> entry\<lparr>rank := index + 1\<rparr>)"

definition getLeaderboard :: "Store \<Rightarrow> string \<Rightarrow> Store \<times> LeaderboardEntry list" where
  "getLeaderboard st tid =
     (let (st', submissions) = getSubmissionsByTest st tid;
          leaderboard =
            array_sort leaderboard_compare (map leaderboard_entry (enumerate 0 submissions))
      in (st', map assign_rank (enumerate 0 leaderboard)))"

section \<open>Anti-cheat classification (components/AntiCheatMonitor.tsx)\<close>

datatype RiskLevel = Low | Medium | High | Critical

record AntiCheatSummary =
  totalEvents :: nat
  tabSwitches :: nat
  copyPasteAttempts :: nat
  rightClicks :: nat
  fullscreenExits :: nat
  riskLevel :: RiskLevel

record StudentRiskProfile =
  p_studentId :: string
  p_studentName :: string
  totalViolations :: nat
  p_riskLevel :: RiskLevel
  events :: "AntiCheatEvent list"
  p_testId :: string
  testTitle :: string

text \<open>
  Both functions read the component's \<^verbatim>\<open>selectedTest\<close> state, here the first
  argument, and what they hand to the state setter is here the result.
\<close>

definition select_submissions :: "string \<Rightarrow> TestSubmission list \<Rightarrow> TestSubmission list" where
  "select_submissions selectedTest submissions =
     (if selectedTest = ''all'' then submissions
      else filter (\<lambda>sub. testId sub = selectedTest) submissions)"

text \<open>The five counters after one more event.\<close>

definition count_event :: "AntiCheatSummary \<Rightarrow> AntiCheatEvent \<Rightarrow> AntiCheatSummary" where
  "count_event c event =
     (let c' = c\<lparr>totalEvents := totalEvents c + 1\<rparr>
      in case e_type event of
           tab_switch \<Rightarrow> c'\<lparr>tabSwitches := tabSwitches c' + 1\<rparr>
         | copy_paste \<Rightarrow> c'\<lparr>copyPasteAttempts := copyPasteAttempts c' + 1\<rparr>
         | right_click \<Rightarrow> c'\<lparr>rightClicks := rightClicks c' + 1\<rparr>
         | fullscreen_exit \<Rightarrow> c'\<lparr>fullscreenExits := fullscreenExits c' + 1\<rparr>)"

definition calculateAntiCheatSummary :: "string \<Rightarrow> TestSubmission list \<Rightarrow> AntiCheatSummary" where
  "calculateAntiCheatSummary selectedTest submissions =
     (let filteredSubmissions = select_submissions selectedTest submissions;
          c = foldl (\<lambda>acc submission. foldl count_event acc (antiCheatEvents submission))
                \<lparr>totalEvents = 0, tabSwitches = 0, copyPasteAttempts = 0, rightClicks = 0,
                 fullscreenExits = 0, riskLevel = Low\<rparr>
                filteredSubmissions
      in c\<lparr>riskLevel :=
             (if totalEvents c > 50 then Critical
              else if totalEvents c > 20 then High
              else if totalEvents c > 5 then Medium
              else Low)\<rparr>)"

definition student_profile :: "Test list \<Rightarrow> TestSubmission \<Rightarrow> StudentRiskProfile" where
  "student_profile tests submission =
     (let test = find (\<lambda>t. t_id t = testId submission) tests;
          violations = length (antiCheatEvents submission)
      in \<lparr>p_studentId = studentId submission,
          p_studentName = studentName submission,
          totalViolations = violations,
          p_riskLevel =
            (if violations > 10 then Critical
             else if violations > 5 then High
             else if violations > 2 then Medium
             else Low),
          events = antiCheatEvents submission,
          p_testId = testId submission,
          testTitle =
            (case test of
               None \<Rightarrow> ''Unknown Test''
             | Some t \<Rightarrow> if title t = [] then ''Unknown Test'' else title t)\<rparr>)"

definition generateStudentRiskProfiles ::
  "string \<Rightarrow> TestSubmission list \<Rightarrow> Test list \<Rightarrow> StudentRiskProfile list" where
  "generateStudentRiskProfiles selectedTest submissions tests =
     array_sort (\<lambda>a b. int (totalViolations b) - int (totalViolations a))
       (map (student_profile tests)
          (filter (\<lambda>submission. length (antiCheatEvents submission) > 0)
             (select_submissions selectedTest submissions)))"

section \<open>Outcome attainment (components/COPOAnalytics.tsx)\<close>












section \<open>The specification's formulas\<close>

text \<open>
  The definitions of this section follow the words of the specification, not the
  code; the theorems below compare the code with them.
\<close>

text \<open>
  Multi-choice award for \<open>points\<close>, canonical set size \<open>k\<close>, \<open>cs\<close> correct and \<open>is\<close>
  incorrect selections: partial score \<open>(cs / k) * points\<close>, penalty
  \<open>min (partialScore * 0.5) (is * (points / k))\<close>, award \<open>max 0 (partialScore - penalty)\<close>.
\<close>

definition multi_choice_award :: "rat \<Rightarrow> nat \<Rightarrow> nat \<Rightarrow> nat \<Rightarrow> rat" where
  "multi_choice_award points k cs is =
     (let partialScore = (of_nat cs / of_nat k) * points;
          penalty = min (partialScore * (1 / 2)) (of_nat is * (points / of_nat k))
      in max 0 (partialScore - penalty))"

text \<open>
  The invariant of a question in the data model: a positive point value; a
  single-choice question has one canonical option; a multi-choice question has one or
  more; a free-text question has a non-empty keyword set.
\<close>

definition well_formed :: "Question \<Rightarrow> bool" where
  "well_formed q =
     (0 < marks q \<and>
      (case q_type q of
         mcq \<Rightarrow> (case correctAnswer q of Some (Str c) \<Rightarrow> True | _ \<Rightarrow> False)
       | checkbox \<Rightarrow> (case correctAnswer q of Some (Arr ca) \<Rightarrow> ca \<noteq> [] | _ \<Rightarrow> False)
       | descriptive \<Rightarrow> (case q_keywords q of Some kws \<Rightarrow> kws \<noteq> [] | None \<Rightarrow> False)))"

text \<open>An answer that is missing, or is not of the shape the question's kind takes.\<close>

fun unusable_answer :: "QuestionType \<Rightarrow> AnswerValue option \<Rightarrow> bool" where
  "unusable_answer kind None = True"
| "unusable_answer mcq (Some (Arr xs)) = True"
| "unusable_answer checkbox (Some (Str x)) = True"
| "unusable_answer descriptive (Some (Arr xs)) = True"
| "unusable_answer kind a = False"

text \<open>
  The leaderboard order: a higher score first, and of two equal scores the shorter
  elapsed time first.
\<close>

definition ranks_before :: "LeaderboardEntry \<Rightarrow> LeaderboardEntry \<Rightarrow> bool" where
  "ranks_before a b =
     (stored_value (le_score b) < stored_value (le_score a) \<or>
      (stored_value (le_score a) = stored_value (le_score b) \<and> le_timeSpent a \<le> le_timeSpent b))"

text \<open>What identifies a submission on the leaderboard: the candidate, the score, the time.\<close>

definition entry_key :: "LeaderboardEntry \<Rightarrow> string \<times> number \<times> rat" where
  "entry_key e = (le_studentId e, le_score e, le_timeSpent e)"

text \<open>
  The risk tiers: over the events of a set of submissions \<open>Low\<close> up to 5, \<open>Medium\<close> 6
  to 20, \<open>High\<close> 21 to 50, \<open>Critical\<close> above; over the events of one submission \<open>Low\<close>
  up to 2, \<open>Medium\<close> 3 to 5, \<open>High\<close> 6 to 10, \<open>Critical\<close> above.
\<close>

definition aggregate_risk_tier :: "nat \<Rightarrow> RiskLevel" where
  "aggregate_risk_tier n =
     (if n \<le> 5 then Low else if n \<le> 20 then Medium else if n \<le> 50 then High else Critical)"

definition student_risk_tier :: "nat \<Rightarrow> RiskLevel" where
  "student_risk_tier n =
     (if n \<le> 2 then Low else if n \<le> 5 then Medium else if n \<le> 10 then High else Critical)"


section \<open>Example data\<close>

text \<open>A free-text question worth half a point, with one keyword.\<close>

definition half_point_question :: Question where
  "half_point_question =
     \<lparr>q_id = ''h1'', q_type = descriptive, q_text = ''Name the LIFO structure.'',
      options = None, correctAnswer = None, q_keywords = Some [''stack''], marks = 1 / 2,
      co = None, po = None\<rparr>"

definition half_point_test :: Test where
  "half_point_test = mock_test\<lparr>t_id := ''test-2'', totalMarks := 1 / 2,
     questions := [half_point_question]\<rparr>"

text \<open>The store of a browser that has not run the application yet.\<close>

definition fresh_store :: Store where
  "fresh_store =
     \<lparr>dsba_tests = None, dsba_submissions = None, dsba_copo = None, dsba_anticheat = None\<rparr>"

text \<open>A submission to the seeded test with a given candidate, score, time and events.\<close>

definition example_submission ::
  "string \<Rightarrow> rat \<Rightarrow> rat \<Rightarrow> AntiCheatEvent list \<Rightarrow> TestSubmission" where
  "example_submission who points seconds evs =
     \<lparr>s_id = ''sub-'' @ who, testId = ''test-1'', studentId = who, studentName = who,
      answers = Map.empty, score = Num points, s_totalMarks = 40, timeSpent = seconds,
      submittedAt = 0, evaluatedAnswers = Map.empty, antiCheatEvents = evs\<rparr>"

definition example_event :: AntiCheatEvent where
  "example_event = \<lparr>e_id = ''ac-1'', e_type = tab_switch, timestamp = 0, details = None\<rparr>"

section \<open>Multi-choice questions\<close>

text \<open>
  The counts the code takes from the two \<^verbatim>\<open>Set\<close>s are the cardinalities of the
  intersection and of the difference of the submitted and the canonical set.
\<close>

lemma correctSelected_card:
  "length (filter (\<lambda>ans. ans \<in> set (remdups ca)) (remdups ua)) = card (set ua \<inter> set ca)"
proof -
  have "distinct (filter (\<lambda>ans. ans \<in> set (remdups ca)) (remdups ua))"
    by simp
  then have "length (filter (\<lambda>ans. ans \<in> set (remdups ca)) (remdups ua))
      = card (set (filter (\<lambda>ans. ans \<in> set (remdups ca)) (remdups ua)))"
    by (simp only: distinct_card)
  also have "set (filter (\<lambda>ans. ans \<in> set (remdups ca)) (remdups ua)) = set ua \<inter> set ca"
    by auto
  finally show ?thesis .
qed

lemma incorrectSelected_card:
  "card (set ua) - card (set ua \<inter> set ca) = card (set ua - set ca)"
  by (simp add: card_Diff_subset_Int)

lemma evaluate_checkbox:
  assumes "q_type q = checkbox" and "correctAnswer q = Some (Arr ca)"
  shows "evaluateQuestion q (Some (Arr ua)) =
    \<lparr>isCorrect = (card (set ua \<inter> set ca) = card (set ca) \<and> card (set ua - set ca) = 0),
     marksAwarded =
       (if ca = [] then NaN
        else Num (multi_choice_award (marks q) (card (set ca)) (card (set ua \<inter> set ca))
               (card (set ua - set ca)))),
     feedback = []\<rparr>"
proof (cases "ca = []")
  case True
  with assms show ?thesis
    by (simp add: evaluateQuestion_def js_sub_def)
next
  case False
  then have k: "card (set ca) \<noteq> 0"
    by simp
  have "evaluateQuestion q (Some (Arr ua)) =
    (let partialScore =
           js_mul (js_div (Num (of_nat (card (set ua \<inter> set ca)))) (Num (of_nat (card (set ca)))))
             (Num (marks q));
         penalty =
           js_min (js_mul partialScore (Num (1 / 2)))
             (js_mul (Num (of_nat (card (set ua - set ca))))
                (js_div (Num (marks q)) (Num (of_nat (card (set ca))))))
     in \<lparr>isCorrect = (card (set ua \<inter> set ca) = card (set ca) \<and> card (set ua - set ca) = 0),
         marksAwarded = js_max (Num 0) (js_sub partialScore penalty),
         feedback = []\<rparr>)"
    by (simp only: evaluateQuestion_def Let_def assms QuestionType.case prod.case option.case
        AnswerValue.case correctSelected_card length_remdups_card_conv incorrectSelected_card)
  also have "\<dots> = \<lparr>isCorrect = (card (set ua \<inter> set ca) = card (set ca) \<and> card (set ua - set ca) = 0),
     marksAwarded = Num (multi_choice_award (marks q) (card (set ca)) (card (set ua \<inter> set ca))
               (card (set ua - set ca))),
     feedback = []\<rparr>"
    using k by (simp add: js_sub_def multi_choice_award_def Let_def)
  finally show ?thesis
    using False by simp
qed

lemma damped_mono:
  fixes p :: rat
  assumes "p \<le> p'"
  shows "max 0 (p - min (p * (1 / 2)) c) \<le> max 0 (p' - min (p' * (1 / 2)) c)"
  using assms by (simp add: min_def max_def)

lemma damped_antimono:
  fixes p :: rat
  assumes "c \<le> c'"
  shows "max 0 (p - min (p * (1 / 2)) c') \<le> max 0 (p - min (p * (1 / 2)) c)"
  using assms by (simp add: min_def max_def)

lemma damped_le:
  fixes p :: rat
  assumes "0 \<le> p" and "0 \<le> c"
  shows "max 0 (p - min (p * (1 / 2)) c) \<le> p"
  using assms by (simp add: min_def max_def)

lemma award_mono_correct:
  assumes "0 \<le> points" and "0 < k" and "cs \<le> cs'"
  shows "multi_choice_award points k cs i \<le> multi_choice_award points k cs' i"
proof -
  have "rat_of_nat cs / of_nat k \<le> of_nat cs' / of_nat k"
    using assms by (simp add: divide_right_mono)
  then have "of_nat cs / of_nat k * points \<le> of_nat cs' / of_nat k * points"
    using assms(1) by (rule mult_right_mono)
  then show ?thesis
    unfolding multi_choice_award_def Let_def by (rule damped_mono)
qed

lemma award_antimono_incorrect:
  assumes "0 \<le> points" and "0 < k" and "i \<le> i'"
  shows "multi_choice_award points k cs i' \<le> multi_choice_award points k cs i"
proof -
  have "0 \<le> points / rat_of_nat k"
    using assms by simp
  moreover have "rat_of_nat i \<le> of_nat i'"
    using assms by simp
  ultimately have "of_nat i * (points / rat_of_nat k) \<le> of_nat i' * (points / of_nat k)"
    by (rule mult_right_mono[rotated])
  then show ?thesis
    unfolding multi_choice_award_def Let_def by (rule damped_antimono)
qed

lemma award_bounds:
  assumes "0 \<le> points" and "0 < k" and "cs \<le> k"
  shows "0 \<le> multi_choice_award points k cs i" and "multi_choice_award points k cs i \<le> points"
proof -
  show "0 \<le> multi_choice_award points k cs i"
    by (simp add: multi_choice_award_def Let_def)
  have "rat_of_nat cs / of_nat k \<le> 1"
    using assms by simp
  moreover have nn: "0 \<le> rat_of_nat cs / of_nat k"
    by simp
  ultimately have p: "of_nat cs / of_nat k * points \<le> points"
    using assms(1) by (intro mult_left_le_one_le)
  have "0 \<le> of_nat cs / of_nat k * points"
    using assms(1) nn by (intro mult_nonneg_nonneg)
  moreover have "0 \<le> of_nat i * (points / rat_of_nat k)"
    using assms by simp
  ultimately have "multi_choice_award points k cs i \<le> of_nat cs / of_nat k * points"
    unfolding multi_choice_award_def Let_def by (rule damped_le)
  with p show "multi_choice_award points k cs i \<le> points"
    by simp
qed

text \<open>
  C1. A multi-choice question with a non-empty canonical set \<open>C\<close> and a submitted
  array \<open>S\<close>: with \<open>k = |C|\<close>, \<open>cs = |S \<inter> C|\<close> and \<open>is = |S - C|\<close> the marks awarded are
  \<open>max 0 ((cs / k) * points - min ((cs / k) * points * 0.5) (is * (points / k)))\<close>, and
  the answer is marked correct exactly when \<open>cs = k\<close> and \<open>is = 0\<close>.
\<close>

theorem multi_choice_evaluation:
  assumes "q_type q = checkbox" and "correctAnswer q = Some (Arr C)" and "C \<noteq> []"
  shows "marksAwarded (evaluateQuestion q (Some (Arr S))) =
           Num (multi_choice_award (marks q) (card (set C)) (card (set S \<inter> set C))
                  (card (set S - set C)))
       \<and> (isCorrect (evaluateQuestion q (Some (Arr S))) \<longleftrightarrow>
            card (set S \<inter> set C) = card (set C) \<and> card (set S - set C) = 0)"
  using assms by (simp add: evaluate_checkbox)

theorem multi_choice_evaluation_witness:
  "q_type mock_q2 = checkbox
   \<and> correctAnswer mock_q2 = Some (Arr [''Array'', ''Stack'', ''Queue''])
   \<and> [''Array'', ''Stack'', ''Queue''] \<noteq> []
   \<and> marksAwarded (evaluateQuestion mock_q2 (Some (Arr [''Array'', ''Stack'', ''Tree''])))
       = Num (10 / 3)
   \<and> \<not> isCorrect (evaluateQuestion mock_q2 (Some (Arr [''Array'', ''Stack'', ''Tree''])))"
proof -
  have h1: "q_type mock_q2 = checkbox"
    by (simp add: mock_q2_def)
  have h2: "correctAnswer mock_q2 = Some (Arr [''Array'', ''Stack'', ''Queue''])"
    by (simp add: mock_q2_def)
  have h3: "[''Array'', ''Stack'', ''Queue''] \<noteq> []"
    by simp
  have c1: "card (set [''Array'', ''Stack'', ''Tree''] \<inter> set [''Array'', ''Stack'', ''Queue'']) = 2"
    by simp
  have c2: "card (set [''Array'', ''Stack'', ''Tree''] - set [''Array'', ''Stack'', ''Queue'']) = 1"
    by simp
  have c3: "card (set [''Array'', ''Stack'', ''Queue'']) = 3"
    by simp
  have m: "marks mock_q2 = 10"
    by (simp add: mock_q2_def)
  have a: "multi_choice_award 10 3 2 1 = 10 / 3"
    by (simp add: multi_choice_award_def)
  show ?thesis
    using multi_choice_evaluation [OF h1 h2 h3, of "[''Array'', ''Stack'', ''Tree'']"] h1 h2
    by (simp only: c1 c2 c3 m a) simp
qed

text \<open>
  C4. For a multi-choice question with a non-empty canonical set and a point value
  that is not negative, the marks awarded do not decrease when the number of correct
  selections grows and the number of incorrect ones stays, and do not increase when
  the number of incorrect selections grows and the number of correct ones stays.
\<close>

theorem multi_choice_monotone:
  assumes "q_type q = checkbox" and "correctAnswer q = Some (Arr C)" and "C \<noteq> []"
    and "0 \<le> marks q"
  shows "\<exists>a a'. marksAwarded (evaluateQuestion q (Some (Arr S))) = Num a
           \<and> marksAwarded (evaluateQuestion q (Some (Arr S'))) = Num a'
           \<and> (card (set S \<inter> set C) \<le> card (set S' \<inter> set C)
                \<and> card (set S - set C) = card (set S' - set C) \<longrightarrow> a \<le> a')
           \<and> (card (set S \<inter> set C) = card (set S' \<inter> set C)
                \<and> card (set S - set C) \<le> card (set S' - set C) \<longrightarrow> a' \<le> a)"
proof -
  have k: "0 < card (set C)"
    using assms(3) by (simp add: card_gt_0_iff)
  show ?thesis
    using assms k
    by (auto simp: evaluate_checkbox intro: award_mono_correct award_antimono_incorrect)
qed

theorem multi_choice_monotone_witness:
  "q_type mock_q2 = checkbox
   \<and> correctAnswer mock_q2 = Some (Arr [''Array'', ''Stack'', ''Queue''])
   \<and> [''Array'', ''Stack'', ''Queue''] \<noteq> [] \<and> 0 \<le> marks mock_q2
   \<and> (\<exists>a a'. marksAwarded (evaluateQuestion mock_q2 (Some (Arr [''Array'', ''Tree'']))) = Num a
         \<and> marksAwarded (evaluateQuestion mock_q2 (Some (Arr [''Array'', ''Stack'', ''Tree'']))) = Num a'
         \<and> a \<le> a')
   \<and> marksAwarded (evaluateQuestion mock_q2 (Some (Arr [''Array'', ''Tree'']))) = Num (5 / 3)
   \<and> marksAwarded (evaluateQuestion mock_q2 (Some (Arr [''Array'', ''Stack'', ''Tree''])))
       = Num (10 / 3)"
proof -
  have h1: "q_type mock_q2 = checkbox"
    by (simp add: mock_q2_def)
  have h2: "correctAnswer mock_q2 = Some (Arr [''Array'', ''Stack'', ''Queue''])"
    by (simp add: mock_q2_def)
  have h3: "[''Array'', ''Stack'', ''Queue''] \<noteq> []"
    by simp
  have h4: "0 \<le> marks mock_q2"
    by (simp add: mock_q2_def)
  have c: "card (set [''Array'', ''Tree''] \<inter> set [''Array'', ''Stack'', ''Queue''])
        \<le> card (set [''Array'', ''Stack'', ''Tree''] \<inter> set [''Array'', ''Stack'', ''Queue''])
      \<and> card (set [''Array'', ''Tree''] - set [''Array'', ''Stack'', ''Queue''])
        = card (set [''Array'', ''Stack'', ''Tree''] - set [''Array'', ''Stack'', ''Queue''])"
    by simp
  have v1: "marksAwarded (evaluateQuestion mock_q2 (Some (Arr [''Array'', ''Tree'']))) = Num (5 / 3)"
    by (simp add: evaluateQuestion_def mock_q2_def js_sub_def)
  have v2: "marksAwarded (evaluateQuestion mock_q2 (Some (Arr [''Array'', ''Stack'', ''Tree''])))
      = Num (10 / 3)"
    by (simp add: evaluateQuestion_def mock_q2_def js_sub_def)
  from multi_choice_monotone [OF h1 h2 h3 h4, of "[''Array'', ''Tree'']" "[''Array'', ''Stack'', ''Tree'']"] c
  have "\<exists>a a'. marksAwarded (evaluateQuestion mock_q2 (Some (Arr [''Array'', ''Tree'']))) = Num a
         \<and> marksAwarded (evaluateQuestion mock_q2 (Some (Arr [''Array'', ''Stack'', ''Tree'']))) = Num a'
         \<and> a \<le> a'"
    by blast
  with h1 h2 h3 h4 v1 v2 show ?thesis
    by blast
qed

section \<open>Single-choice questions\<close>

lemma evaluate_mcq:
  assumes "q_type q = mcq"
  shows "evaluateQuestion q a =
    \<lparr>isCorrect = strict_equal a (correctAnswer q),
     marksAwarded = (if strict_equal a (correctAnswer q) then Num (marks q) else Num 0),
     feedback = []\<rparr>"
  using assms by (simp add: evaluateQuestion_def Let_def)

lemma strict_equal_Str: "strict_equal a (Some (Str c)) = (a = Some (Str c))"
  by (cases "(a, Some (Str c))" rule: strict_equal.cases) auto

text \<open>
  C9. A single-choice question with a canonical option \<open>c\<close> and a positive point value
  awards its full point value exactly when the submitted value is the string \<open>c\<close>,
  and zero otherwise; it is marked correct exactly when the full value is awarded.
\<close>

theorem single_choice_evaluation:
  assumes "q_type q = mcq" and "correctAnswer q = Some (Str c)" and "0 < marks q"
  shows "(marksAwarded (evaluateQuestion q a) = Num (marks q) \<longleftrightarrow> a = Some (Str c))
       \<and> (a \<noteq> Some (Str c) \<longrightarrow> marksAwarded (evaluateQuestion q a) = Num 0)
       \<and> (isCorrect (evaluateQuestion q a) \<longleftrightarrow> marksAwarded (evaluateQuestion q a) = Num (marks q))"
  using assms by (simp add: evaluate_mcq strict_equal_Str)

theorem single_choice_evaluation_witness:
  "q_type mock_q1 = mcq \<and> correctAnswer mock_q1 = Some (Str ''Stack'') \<and> 0 < marks mock_q1
   \<and> marksAwarded (evaluateQuestion mock_q1 (Some (Str ''Stack''))) = Num 5
   \<and> isCorrect (evaluateQuestion mock_q1 (Some (Str ''Stack'')))
   \<and> marksAwarded (evaluateQuestion mock_q1 (Some (Str ''Queue''))) = Num 0
   \<and> \<not> isCorrect (evaluateQuestion mock_q1 (Some (Str ''Queue'')))"
proof -
  have h1: "q_type mock_q1 = mcq"
    by (simp add: mock_q1_def)
  have h2: "correctAnswer mock_q1 = Some (Str ''Stack'')"
    by (simp add: mock_q1_def)
  have h3: "0 < marks mock_q1"
    by (simp add: mock_q1_def)
  have m: "marks mock_q1 = 5"
    by (simp add: mock_q1_def)
  show ?thesis
    using single_choice_evaluation [OF h1 h2 h3, of "Some (Str ''Stack'')"]
      single_choice_evaluation [OF h1 h2 h3, of "Some (Str ''Queue'')"] h1 h2 h3
    by (simp add: m)
qed

section \<open>Free-text questions\<close>

text \<open>
  The test \<open>includes_str\<close> is the library's \<open>sublist\<close>: a keyword matches when, after
  both are put in lower case, it occurs in the text as a contiguous run.
\<close>

lemma includes_str_sublist: "includes_str s k = sublist k s"
  by (induction s) (simp_all add: sublist_Cons_right)

lemma evaluate_descriptive:
  assumes "q_type q = descriptive" and "q_keywords q = Some kws"
  shows "evaluateQuestion q (Some (Str s)) =
    (let matched = filter (\<lambda>keyword. sublist (toLowerCase keyword) (toLowerCase s)) kws
     in \<lparr>isCorrect = (of_nat (length kws) * (6 / 10 :: rat) \<le> of_nat (length matched)),
         marksAwarded =
           (if kws = [] then NaN
            else Num (of_int (round (of_nat (length matched) / of_nat (length kws) * marks q)))),
         feedback = ''Keywords found: '' @ join matched '', ''\<rparr>)"
  using assms by (simp add: evaluateQuestion_def Let_def includes_str_sublist)

section \<open>The evaluation of a whole test\<close>

lemma evaluate_unusable:
  assumes "unusable_answer (q_type q) a" and "q_type q = mcq \<longrightarrow> correctAnswer q \<noteq> None"
  shows "evaluateQuestion q a = \<lparr>isCorrect = False, marksAwarded = Num 0, feedback = []\<rparr>"
proof (cases "q_type q")
  case mcq
  with assms obtain v where v: "correctAnswer q = Some v"
    by auto
  have "\<not> strict_equal a (Some v)"
    using assms(1) mcq by (cases "(a, Some v)" rule: strict_equal.cases) auto
  with mcq v show ?thesis
    by (simp add: evaluate_mcq)
next
  case checkbox
  with assms(1) show ?thesis
    by (cases "(q_type q, a)" rule: unusable_answer.cases)
      (auto simp: evaluateQuestion_def split: option.splits AnswerValue.splits)
next
  case descriptive
  with assms(1) show ?thesis
    by (cases "(q_type q, a)" rule: unusable_answer.cases)
      (auto simp: evaluateQuestion_def split: option.splits AnswerValue.splits)
qed

lemma evaluateStep_dom:
  "dom (snd (foldl (evaluateStep ans) acc qs)) = dom (snd acc) \<union> q_id ` set qs"
  by (induction qs arbitrary: acc) (auto simp: evaluateStep_def Let_def)

lemma evaluateStep_other:
  "k \<notin> q_id ` set qs \<Longrightarrow> snd (foldl (evaluateStep ans) acc qs) k = snd acc k"
  by (induction qs arbitrary: acc) (auto simp: evaluateStep_def Let_def)

lemma evaluateStep_lookup:
  assumes "distinct (map q_id qs)" and "q \<in> set qs"
  shows "snd (foldl (evaluateStep ans) acc qs) (q_id q) = Some (evaluateQuestion q (ans (q_id q)))"
  using assms
proof (induction qs arbitrary: acc)
  case Nil
  then show ?case by simp
next
  case (Cons x xs)
  show ?case
  proof (cases "q = x")
    case True
    have "q_id x \<notin> q_id ` set xs"
      using Cons.prems(1) by simp
    then show ?thesis
      using True by (simp add: evaluateStep_other) (simp add: evaluateStep_def Let_def)
  next
    case False
    with Cons.prems have "q \<in> set xs" and "distinct (map q_id xs)"
      by simp_all
    then show ?thesis
      using Cons.IH by simp
  qed
qed

text \<open>
  C8. For a test whose question ids are distinct and whose single-choice questions
  have a canonical answer, and for every answer map: the evaluation results are keyed
  by exactly the ids of the test's questions, one per question, each the verdict of
  its question; and a question whose answer is missing or of the wrong shape gets
  zero marks and is marked not correct, the same verdict a wrong answer gets.
\<close>

theorem one_result_per_question:
  assumes "distinct (map q_id (questions test))"
    and "\<forall>q\<in>set (questions test). q_type q = mcq \<longrightarrow> correctAnswer q \<noteq> None"
  shows "dom (ev_evaluatedAnswers (evaluateAnswers test ans)) = q_id ` set (questions test)
       \<and> card (dom (ev_evaluatedAnswers (evaluateAnswers test ans))) = length (questions test)
       \<and> (\<forall>q\<in>set (questions test).
            ev_evaluatedAnswers (evaluateAnswers test ans) (q_id q)
              = Some (evaluateQuestion q (ans (q_id q)))
            \<and> (unusable_answer (q_type q) (ans (q_id q)) \<longrightarrow>
                 evaluateQuestion q (ans (q_id q))
                   = \<lparr>isCorrect = False, marksAwarded = Num 0, feedback = []\<rparr>))"
proof -
  have d: "dom (ev_evaluatedAnswers (evaluateAnswers test ans)) = q_id ` set (questions test)"
    by (simp add: evaluateAnswers_def Let_def evaluateStep_dom)
  have "card (q_id ` set (questions test)) = length (questions test)"
    using assms(1) distinct_card[of "map q_id (questions test)"] by simp
  with d have c: "card (dom (ev_evaluatedAnswers (evaluateAnswers test ans))) = length (questions test)"
    by simp
  have l: "\<forall>q\<in>set (questions test).
      ev_evaluatedAnswers (evaluateAnswers test ans) (q_id q)
        = Some (evaluateQuestion q (ans (q_id q)))"
    using assms(1) by (simp add: evaluateAnswers_def Let_def evaluateStep_lookup)
  have u: "\<forall>q\<in>set (questions test). unusable_answer (q_type q) (ans (q_id q)) \<longrightarrow>
      evaluateQuestion q (ans (q_id q)) = \<lparr>isCorrect = False, marksAwarded = Num 0, feedback = []\<rparr>"
    using assms(2) by (simp add: evaluate_unusable)
  from d c l u show ?thesis
    by blast
qed

theorem one_result_per_question_witness:
  "distinct (map q_id (questions mock_test))
   \<and> questions mock_test = [mock_q1, mock_q2, mock_q3]
   \<and> correctAnswer mock_q1 \<noteq> None \<and> q_type mock_q2 \<noteq> mcq \<and> q_type mock_q3 \<noteq> mcq
   \<and> dom (ev_evaluatedAnswers (evaluateAnswers mock_test [''q1'' \<mapsto> Str ''Stack'']))
       = {''q1'', ''q2'', ''q3''}
   \<and> ev_evaluatedAnswers (evaluateAnswers mock_test [''q1'' \<mapsto> Str ''Stack'']) ''q2''
       = Some \<lparr>isCorrect = False, marksAwarded = Num 0, feedback = []\<rparr>"
proof -
  have h1: "distinct (map q_id (questions mock_test))"
    by (simp add: mock_test_def mock_q1_def mock_q2_def mock_q3_def)
  have h2: "\<forall>q\<in>set (questions mock_test). q_type q = mcq \<longrightarrow> correctAnswer q \<noteq> None"
    by (simp add: mock_test_def mock_q1_def mock_q2_def mock_q3_def)
  have q: "mock_q2 \<in> set (questions mock_test)"
    by (simp add: mock_test_def)
  have i: "q_id ` set (questions mock_test) = {''q1'', ''q2'', ''q3''}"
    by (simp add: mock_test_def mock_q1_def mock_q2_def mock_q3_def)
  have u: "unusable_answer (q_type mock_q2) ([''q1'' \<mapsto> Str ''Stack''] (q_id mock_q2))"
    by (simp add: mock_q2_def)
  have k: "q_id mock_q2 = ''q2''"
    by (simp add: mock_q2_def)
  from one_result_per_question [OF h1 h2, of "[''q1'' \<mapsto> Str ''Stack'']"] q u
  have "dom (ev_evaluatedAnswers (evaluateAnswers mock_test [''q1'' \<mapsto> Str ''Stack'']))
       = q_id ` set (questions mock_test)
     \<and> ev_evaluatedAnswers (evaluateAnswers mock_test [''q1'' \<mapsto> Str ''Stack'']) (q_id mock_q2)
       = Some \<lparr>isCorrect = False, marksAwarded = Num 0, feedback = []\<rparr>"
    by metis
  moreover have "questions mock_test = [mock_q1, mock_q2, mock_q3]"
    by (simp add: mock_test_def)
  moreover have "correctAnswer mock_q1 \<noteq> None \<and> q_type mock_q2 \<noteq> mcq \<and> q_type mock_q3 \<noteq> mcq"
    by (simp add: mock_q1_def mock_q2_def mock_q3_def)
  ultimately show ?thesis
    using h1 unfolding i k by blast
qed

section \<open>Bounds on the marks\<close>

lemma evaluateStep_total:
  assumes "\<forall>q\<in>set qs. \<exists>r. marksAwarded (evaluateQuestion q (ans (q_id q))) = Num r \<and> 0 \<le> r \<and> r \<le> marks q"
  shows "\<exists>t. fst (foldl (evaluateStep ans) (Num t0, m) qs) = Num t \<and> t0 \<le> t
            \<and> t \<le> t0 + sum_list (map marks qs)"
  using assms
proof (induction qs arbitrary: t0 m)
  case Nil
  then show ?case by simp
next
  case (Cons x xs)
  from Cons.prems obtain r where r: "marksAwarded (evaluateQuestion x (ans (q_id x))) = Num r"
      "0 \<le> r" "r \<le> marks x"
    by auto
  have step: "evaluateStep ans (Num t0, m) x
      = (Num (t0 + r), m(q_id x \<mapsto> evaluateQuestion x (ans (q_id x))))"
    using r(1) by (simp add: evaluateStep_def Let_def)
  from Cons.prems have "\<forall>q\<in>set xs. \<exists>r. marksAwarded (evaluateQuestion q (ans (q_id q))) = Num r
      \<and> 0 \<le> r \<and> r \<le> marks q"
    by simp
  from Cons.IH[OF this, of "t0 + r" "m(q_id x \<mapsto> evaluateQuestion x (ans (q_id x)))"]
  obtain t where t: "fst (foldl (evaluateStep ans) (Num (t0 + r),
        m(q_id x \<mapsto> evaluateQuestion x (ans (q_id x)))) xs) = Num t"
      "t0 + r \<le> t" "t \<le> t0 + r + sum_list (map marks xs)"
    by blast
  show ?case
    using t r step by auto
qed

lemma question_award_bounds:
  assumes "well_formed q" and "marks q \<in> \<int>"
  shows "\<exists>r. marksAwarded (evaluateQuestion q a) = Num r \<and> 0 \<le> r \<and> r \<le> marks q"
proof (cases "q_type q")
  case mcq
  with assms(1) show ?thesis
    by (simp add: evaluate_mcq well_formed_def)
next
  case checkbox
  with assms(1) obtain ca where ca: "correctAnswer q = Some (Arr ca)" "ca \<noteq> []"
    by (auto simp: well_formed_def split: option.splits AnswerValue.splits)
  show ?thesis
  proof (cases "\<exists>ua. a = Some (Arr ua)")
    case True
    then obtain ua where ua: "a = Some (Arr ua)"
      by blast
    have "card (set ua \<inter> set ca) \<le> card (set ca)"
      by (simp add: card_mono)
    moreover have "0 < card (set ca)"
      using ca(2) by (simp add: card_gt_0_iff)
    moreover have "0 \<le> marks q"
      using assms(1) by (simp add: well_formed_def)
    ultimately show ?thesis
      using ca ua checkbox by (simp add: evaluate_checkbox award_bounds)
  next
    case False
    then have "unusable_answer (q_type q) a"
      using checkbox by (cases "(q_type q, a)" rule: unusable_answer.cases) auto
    then show ?thesis
      using checkbox assms(1) by (simp add: evaluate_unusable well_formed_def)
  qed
next
  case descriptive
  with assms(1) obtain kws where kws: "q_keywords q = Some kws" "kws \<noteq> []"
    by (auto simp: well_formed_def split: option.splits)
  from assms(2) obtain n where n: "marks q = of_int n"
    by (auto elim: Ints_cases)
  have pos: "0 \<le> marks q"
    using assms(1) by (simp add: well_formed_def)
  show ?thesis
  proof (cases "\<exists>s. a = Some (Str s)")
    case True
    then obtain s where s: "a = Some (Str s)"
      by blast
    define matched where "matched = length (filter (\<lambda>keyword. sublist (toLowerCase keyword) (toLowerCase s)) kws)"
    have "matched \<le> length kws"
      by (simp add: matched_def)
    then have "rat_of_nat matched / of_nat (length kws) \<le> 1"
      using kws(2) by simp
    moreover have f0: "0 \<le> rat_of_nat matched / of_nat (length kws)"
      by simp
    ultimately have le: "of_nat matched / of_nat (length kws) * marks q \<le> marks q"
      using pos by (intro mult_left_le_one_le)
    have ge: "0 \<le> of_nat matched / of_nat (length kws) * marks q"
      using pos f0 by (intro mult_nonneg_nonneg)
    have "round (of_nat matched / of_nat (length kws) * marks q) \<le> round (marks q)"
      using le by (rule round_mono)
    then have up: "round (of_nat matched / of_nat (length kws) * marks q) \<le> n"
      by (simp add: n)
    have "round (0::rat) \<le> round (of_nat matched / of_nat (length kws) * marks q)"
      using ge by (rule round_mono)
    then have lo: "0 \<le> round (of_nat matched / of_nat (length kws) * marks q)"
      by simp
    have "marksAwarded (evaluateQuestion q a)
        = Num (of_int (round (of_nat matched / of_nat (length kws) * marks q)))"
      using kws descriptive by (simp add: s evaluate_descriptive Let_def matched_def)
    then show ?thesis
      using lo up by (simp add: n)
  next
    case False
    then have "unusable_answer (q_type q) a"
      using descriptive by (cases "(q_type q, a)" rule: unusable_answer.cases) auto
    then show ?thesis
      using descriptive assms(1) by (simp add: evaluate_unusable well_formed_def)
  qed
qed

lemma sum_marks_Ints:
  "\<forall>q\<in>set qs. marks q \<in> \<int> \<Longrightarrow> sum_list (map marks qs) \<in> \<int>"
  by (induction qs) simp_all

text \<open>
  C10, as amended. For a test whose questions satisfy the invariant of the data model
  and have whole-number point values, and for every answer of any shape: the marks
  awarded to a question lie between 0 and its point value, and the score lies
  between 0 and the sum of the point values.
\<close>

theorem awarded_marks_bounded:
  assumes "\<forall>q\<in>set (questions test). well_formed q \<and> marks q \<in> \<int>"
  shows "(\<forall>q\<in>set (questions test). \<forall>a. \<exists>r. marksAwarded (evaluateQuestion q a) = Num r
            \<and> 0 \<le> r \<and> r \<le> marks q)
       \<and> (\<exists>s. ev_score (evaluateAnswers test ans) = Num s \<and> 0 \<le> s
            \<and> s \<le> sum_list (map marks (questions test)))"
proof -
  have each: "\<forall>q\<in>set (questions test). \<forall>a. \<exists>r. marksAwarded (evaluateQuestion q a) = Num r
      \<and> 0 \<le> r \<and> r \<le> marks q"
    using assms by (simp add: question_award_bounds)
  then have "\<forall>q\<in>set (questions test). \<exists>r. marksAwarded (evaluateQuestion q (ans (q_id q))) = Num r
      \<and> 0 \<le> r \<and> r \<le> marks q"
    by blast
  from evaluateStep_total[OF this, of 0 Map.empty]
  obtain t where t: "fst (foldl (evaluateStep ans) (Num 0, Map.empty) (questions test)) = Num t"
      "0 \<le> t" "t \<le> sum_list (map marks (questions test))"
    by auto
  from assms have "sum_list (map marks (questions test)) \<in> \<int>"
    by (simp add: sum_marks_Ints)
  then obtain n where n: "sum_list (map marks (questions test)) = of_int n"
    by (auto elim: Ints_cases)
  have "round t \<le> round (rat_of_int n)"
    using t(3) n by (intro round_mono) simp
  then have up: "round t \<le> n"
    by simp
  have "round (0::rat) \<le> round t"
    using t(2) by (rule round_mono)
  then have lo: "0 \<le> round t"
    by simp
  have "ev_score (evaluateAnswers test ans) = Num (of_int (round t))"
    using t(1) by (simp add: evaluateAnswers_def Let_def)
  with lo up n each show ?thesis
    by simp
qed

theorem awarded_marks_bounded_witness:
  "questions mock_test = [mock_q1, mock_q2, mock_q3]
   \<and> well_formed mock_q1 \<and> marks mock_q1 \<in> \<int>
   \<and> well_formed mock_q2 \<and> marks mock_q2 \<in> \<int>
   \<and> well_formed mock_q3 \<and> marks mock_q3 \<in> \<int>
   \<and> (\<exists>s. ev_score (evaluateAnswers mock_test [''q1'' \<mapsto> Str ''Stack'']) = Num s \<and> 0 \<le> s
         \<and> s \<le> sum_list (map marks (questions mock_test)))
   \<and> sum_list (map marks (questions mock_test)) = 30"
proof -
  have h: "\<forall>q\<in>set (questions mock_test). well_formed q \<and> marks q \<in> \<int>"
    by (simp add: mock_test_def mock_q1_def mock_q2_def mock_q3_def well_formed_def)
  have s: "sum_list (map marks (questions mock_test)) = 30"
    by (simp add: mock_test_def mock_q1_def mock_q2_def mock_q3_def)
  have q: "questions mock_test = [mock_q1, mock_q2, mock_q3]"
    by (simp add: mock_test_def)
  have w: "well_formed mock_q1 \<and> marks mock_q1 \<in> \<int> \<and> well_formed mock_q2 \<and> marks mock_q2 \<in> \<int>
      \<and> well_formed mock_q3 \<and> marks mock_q3 \<in> \<int>"
    using h by (simp add: q)
  from awarded_marks_bounded [OF h, of "[''q1'' \<mapsto> Str ''Stack'']"] q w s show ?thesis
    by blast
qed

text \<open>
  With a point value of one half the bound fails: the free-text rounding and the
  rounding of the score both turn \<open>1 / 2\<close> into \<open>1\<close>.
\<close>

theorem awarded_marks_bounded_counterexample:
  "well_formed half_point_question
   \<and> \<not> (\<exists>r. marksAwarded (evaluateQuestion half_point_question (Some (Str ''a stack''))) = Num r
          \<and> 0 \<le> r \<and> r \<le> marks half_point_question)
   \<and> \<not> (\<exists>s. ev_score (evaluateAnswers half_point_test [''h1'' \<mapsto> Str ''a stack'']) = Num s
          \<and> 0 \<le> s \<and> s \<le> sum_list (map marks (questions half_point_test)))"
proof -
  have w: "well_formed half_point_question"
    by (simp add: well_formed_def half_point_question_def)
  have a: "marksAwarded (evaluateQuestion half_point_question (Some (Str ''a stack''))) = Num 1"
    by code_simp
  have m: "marks half_point_question = 1 / 2"
    by (simp add: half_point_question_def)
  have s: "ev_score (evaluateAnswers half_point_test [''h1'' \<mapsto> Str ''a stack'']) = Num 1"
    by (simp add: evaluateAnswers_def half_point_test_def evaluateStep_def a)
      (simp add: half_point_question_def)
  have t: "sum_list (map marks (questions half_point_test)) = 1 / 2"
    by (simp add: half_point_test_def half_point_question_def)
  show ?thesis
    unfolding a s m t using w by simp
qed

section \<open>The store and the submission path\<close>

lemma initializeData_present:
  "dsba_tests (initializeData st) \<noteq> None" "dsba_submissions (initializeData st) \<noteq> None"
  "dsba_copo (initializeData st) \<noteq> None" "dsba_anticheat (initializeData st) \<noteq> None"
  by (simp_all add: initializeData_def Let_def)

lemma initializeData_keeps:
  "dsba_tests st \<noteq> None \<Longrightarrow> dsba_tests (initializeData st) = dsba_tests st"
  "dsba_submissions st \<noteq> None \<Longrightarrow> dsba_submissions (initializeData st) = dsba_submissions st"
  "dsba_copo st \<noteq> None \<Longrightarrow> dsba_copo (initializeData st) = dsba_copo st"
  "dsba_anticheat st \<noteq> None \<Longrightarrow> dsba_anticheat (initializeData st) = dsba_anticheat st"
  by (auto simp: initializeData_def Let_def)

lemma initializeData_fixed:
  assumes "dsba_tests st \<noteq> None" and "dsba_submissions st \<noteq> None"
    and "dsba_copo st \<noteq> None" and "dsba_anticheat st \<noteq> None"
  shows "initializeData st = st"
  using assms by (simp add: initializeData_def Let_def)

lemma initializeData_idem: "initializeData (initializeData st) = initializeData st"
  by (rule initializeData_fixed) (rule initializeData_present)+

lemma getSubmissions_initialized:
  "snd (getSubmissions (initializeData st)) = snd (getSubmissions st)"
  by (simp add: getSubmissions_def Let_def initializeData_idem)

text \<open>
  C6, as amended. When no stored test has the given id, looking the test up returns
  no test, and \<open>submitTest\<close> fails with the error \<^verbatim>\<open>Test not found\<close> before it writes a
  submission. The store it leaves is the initialised store: the only writes before the
  failure are the defaults of absent items, which any read writes as well. So the
  submission list read back is the one read before, a submission item that was
  present is unchanged, and a store with all four items present is unchanged.
\<close>

theorem submit_missing_test:
  assumes "\<forall>t\<in>set (snd (getTests st)). t_id t \<noteq> tid"
  shows "snd (getTestById st tid) = None
       \<and> snd (submitTest st now tid sid sname ans spent evs) = Inl (Error ''Test not found'')
       \<and> fst (submitTest st now tid sid sname ans spent evs) = initializeData st
       \<and> snd (getSubmissions (fst (submitTest st now tid sid sname ans spent evs)))
           = snd (getSubmissions st)
       \<and> (dsba_submissions st \<noteq> None \<longrightarrow>
            dsba_submissions (fst (submitTest st now tid sid sname ans spent evs))
              = dsba_submissions st)
       \<and> (dsba_tests st \<noteq> None \<and> dsba_submissions st \<noteq> None \<and> dsba_copo st \<noteq> None
            \<and> dsba_anticheat st \<noteq> None \<longrightarrow>
            fst (submitTest st now tid sid sname ans spent evs) = st)"
proof -
  have none: "find (\<lambda>test. t_id test = tid) (snd (getTests st)) = None"
    using assms by (simp add: find_None_iff)
  then have g: "getTestById st tid = (initializeData st, None)"
    by (simp add: getTestById_def getTests_def Let_def)
  then have s: "submitTest st now tid sid sname ans spent evs
      = (initializeData st, Inl (Error ''Test not found''))"
    by (simp add: submitTest_def)
  show ?thesis
    by (simp add: g s getSubmissions_initialized initializeData_keeps initializeData_fixed)
qed

theorem submit_missing_test_witness:
  "t_id mock_test \<noteq> ''test-0''
   \<and> snd (getTests fresh_store) = [mock_test]
   \<and> snd (getTestById fresh_store ''test-0'') = None
   \<and> snd (submitTest fresh_store 7 ''test-0'' ''S001'' ''Asha'' Map.empty 60 [])
       = Inl (Error ''Test not found'')
   \<and> snd (getSubmissions (fst (submitTest fresh_store 7 ''test-0'' ''S001'' ''Asha'' Map.empty 60 [])))
       = []
   \<and> dsba_submissions (initializeData fresh_store) \<noteq> None
   \<and> fst (submitTest (initializeData fresh_store) 7 ''test-0'' ''S001'' ''Asha'' Map.empty 60 [])
       = initializeData fresh_store"
proof -
  have t: "snd (getTests fresh_store) = [mock_test]"
    by (simp add: getTests_def initializeData_def fresh_store_def mockTests_def)
  have i: "t_id mock_test \<noteq> ''test-0''"
    by (simp add: mock_test_def)
  have h: "\<forall>t\<in>set (snd (getTests fresh_store)). t_id t \<noteq> ''test-0''"
    using i by (simp add: t)
  have e: "snd (getSubmissions fresh_store) = []"
    by (simp add: getSubmissions_def initializeData_def fresh_store_def)
  note r = submit_missing_test [OF h, of 7 "''S001''" "''Asha''" Map.empty 60 "[]"]
  from r have a: "snd (getTestById fresh_store ''test-0'') = None"
    by (rule conjunct1)
  from r have b: "snd (submitTest fresh_store 7 ''test-0'' ''S001'' ''Asha'' Map.empty 60 [])
      = Inl (Error ''Test not found'')"
    by blast
  from r have "snd (getSubmissions (fst (submitTest fresh_store 7 ''test-0'' ''S001'' ''Asha'' Map.empty 60 [])))
      = snd (getSubmissions fresh_store)"
    by blast
  then have c: "snd (getSubmissions (fst (submitTest fresh_store 7 ''test-0'' ''S001'' ''Asha'' Map.empty 60 [])))
      = []"
    by (simp only: e)
  have t': "snd (getTests (initializeData fresh_store)) = [mock_test]"
    by (simp add: getTests_def initializeData_idem)
      (simp add: initializeData_def fresh_store_def mockTests_def)
  have h': "\<forall>t\<in>set (snd (getTests (initializeData fresh_store))). t_id t \<noteq> ''test-0''"
    using i by (simp add: t')
  have present: "dsba_tests (initializeData fresh_store) \<noteq> None
      \<and> dsba_submissions (initializeData fresh_store) \<noteq> None
      \<and> dsba_copo (initializeData fresh_store) \<noteq> None
      \<and> dsba_anticheat (initializeData fresh_store) \<noteq> None"
    by (simp add: initializeData_present)
  from submit_missing_test [OF h', of 7 "''S001''" "''Asha''" Map.empty 60 "[]"] present
  have d: "fst (submitTest (initializeData fresh_store) 7 ''test-0'' ''S001'' ''Asha'' Map.empty 60 [])
      = initializeData fresh_store"
    by blast
  from i t a b c present d show ?thesis
    by blast
qed

text \<open>
  In a browser that has not run the application yet, the failing call leaves a store
  that differs from the one it found: the submission item, absent before, is the
  empty list after.
\<close>

theorem submit_missing_test_counterexample:
  "snd (submitTest fresh_store 7 ''test-0'' ''S001'' ''Asha'' Map.empty 60 [])
     = Inl (Error ''Test not found'')
   \<and> fst (submitTest fresh_store 7 ''test-0'' ''S001'' ''Asha'' Map.empty 60 []) \<noteq> fresh_store
   \<and> dsba_submissions fresh_store = None
   \<and> dsba_submissions (fst (submitTest fresh_store 7 ''test-0'' ''S001'' ''Asha'' Map.empty 60 []))
       = Some []"
  by (simp add: submitTest_def getTestById_def getTests_def initializeData_def fresh_store_def
      mockTests_def mock_test_def)

section \<open>The leaderboard\<close>

lemma mset_insert_sorted: "mset (insert_sorted cmp x ys) = add_mset x (mset ys)"
  by (induction ys) simp_all

lemma mset_array_sort: "mset (array_sort cmp xs) = mset xs"
  by (induction xs) (simp_all add: array_sort_def mset_insert_sorted)

lemma set_array_sort: "set (array_sort cmp xs) = set xs"
  using mset_array_sort[of cmp xs] by (metis set_mset_mset)

lemma length_array_sort: "length (array_sort cmp xs) = length xs"
  using mset_array_sort[of cmp xs] by (metis size_mset)

lemma leaderboard_compare_le: "leaderboard_compare a b \<le> 0 \<longleftrightarrow> ranks_before a b"
  by (auto simp: leaderboard_compare_def ranks_before_def Let_def)

lemma ranks_before_total: "\<not> ranks_before a b \<Longrightarrow> ranks_before b a"
  by (auto simp: ranks_before_def)

lemma ranks_before_trans: "ranks_before a b \<Longrightarrow> ranks_before b c \<Longrightarrow> ranks_before a c"
  by (auto simp: ranks_before_def)

lemma sorted_insert_sorted:
  assumes "sorted_wrt ranks_before ys"
  shows "sorted_wrt ranks_before (insert_sorted leaderboard_compare x ys)"
  using assms
proof (induction ys)
  case Nil
  then show ?case by simp
next
  case (Cons y ys)
  show ?case
  proof (cases "leaderboard_compare x y \<le> 0")
    case True
    then have xy: "ranks_before x y"
      by (simp add: leaderboard_compare_le)
    have "\<forall>z\<in>set ys. ranks_before x z"
      using Cons.prems xy by (auto intro: ranks_before_trans)
    with True xy Cons.prems show ?thesis
      by simp
  next
    case False
    then have yx: "ranks_before y x"
      by (simp add: leaderboard_compare_le ranks_before_total)
    have "set (insert_sorted leaderboard_compare x ys) = insert x (set ys)"
      using mset_insert_sorted[of leaderboard_compare x ys] by (metis set_mset_mset set_mset_add_mset_insert)
    with False yx Cons show ?thesis
      by simp
  qed
qed

lemma sorted_array_sort: "sorted_wrt ranks_before (array_sort leaderboard_compare xs)"
  by (induction xs) (simp_all add: array_sort_def sorted_insert_sorted)

lemma assign_rank_nth:
  assumes "i < length xs"
  shows "map assign_rank (enumerate 0 xs) ! i = (xs ! i)\<lparr>rank := i + 1\<rparr>"
  using assms by (simp add: nth_enumerate_eq assign_rank_def)

lemma leaderboard_entry_fields:
  "le_studentId (leaderboard_entry (i, sub)) = studentId sub"
  "le_score (leaderboard_entry (i, sub)) = score sub"
  "le_timeSpent (leaderboard_entry (i, sub)) = timeSpent sub"
  by (simp_all add: leaderboard_entry_def)

lemma entry_key_assign: "entry_key (assign_rank p) = entry_key (snd p)"
  by (cases p) (simp add: entry_key_def assign_rank_def)

lemma entry_key_entry: "entry_key (leaderboard_entry p) = (studentId (snd p), score (snd p), timeSpent (snd p))"
  by (cases p) (simp add: entry_key_def leaderboard_entry_def)

lemma leaderboard_keys:
  "mset (map entry_key (snd (getLeaderboard st tid)))
     = mset (map (\<lambda>sub. (studentId sub, score sub, timeSpent sub)) (snd (getSubmissionsByTest st tid)))"
proof -
  obtain st' subs where g: "getSubmissionsByTest st tid = (st', subs)"
    by (cases "getSubmissionsByTest st tid")
  define L where "L = array_sort leaderboard_compare (map leaderboard_entry (enumerate 0 subs))"
  have "map entry_key (map assign_rank (enumerate 0 L)) = map (entry_key \<circ> snd) (enumerate 0 L)"
    by (simp add: entry_key_assign o_def)
  also have "\<dots> = map entry_key (map snd (enumerate 0 L))"
    by (simp only: map_map)
  also have "\<dots> = map entry_key L"
    by (simp only: map_snd_enumerate)
  finally have ranked: "map entry_key (map assign_rank (enumerate 0 L)) = map entry_key L" .
  have "map entry_key (map leaderboard_entry (enumerate 0 subs))
      = map ((\<lambda>sub. (studentId sub, score sub, timeSpent sub)) \<circ> snd) (enumerate 0 subs)"
    by (simp add: entry_key_entry o_def)
  also have "\<dots> = map (\<lambda>sub. (studentId sub, score sub, timeSpent sub)) (map snd (enumerate 0 subs))"
    by (simp only: map_map)
  also have "\<dots> = map (\<lambda>sub. (studentId sub, score sub, timeSpent sub)) subs"
    by (simp only: map_snd_enumerate)
  finally have entries: "map entry_key (map leaderboard_entry (enumerate 0 subs))
      = map (\<lambda>sub. (studentId sub, score sub, timeSpent sub)) subs" .
  have "mset (map entry_key L) = mset (map entry_key (map leaderboard_entry (enumerate 0 subs)))"
    by (simp only: mset_map L_def mset_array_sort)
  then have "mset (map entry_key (map assign_rank (enumerate 0 L)))
      = mset (map (\<lambda>sub. (studentId sub, score sub, timeSpent sub)) subs)"
    by (simp only: ranked entries)
  then show ?thesis
    by (simp add: getLeaderboard_def g L_def)
qed

lemma example_submission_fields:
  "testId (example_submission w p s e) = ''test-1''"
  "studentId (example_submission w p s e) = w"
  "score (example_submission w p s e) = Num p"
  "timeSpent (example_submission w p s e) = s"
  "antiCheatEvents (example_submission w p s e) = e"
  by (simp_all add: example_submission_def)

lemma leaderboard_compare_entries:
  "leaderboard_compare (leaderboard_entry (i, a)) (leaderboard_entry (j, b)) =
     (if stored_value (score b) - stored_value (score a) \<noteq> 0
      then stored_value (score b) - stored_value (score a)
      else timeSpent a - timeSpent b)"
  by (simp add: leaderboard_compare_def leaderboard_entry_fields Let_def)

lemma assign_rank_fields:
  "le_studentId (assign_rank (i, e)) = le_studentId e" "rank (assign_rank (i, e)) = i + 1"
  by (simp_all add: assign_rank_def)

text \<open>
  C3. The leaderboard of a test lists exactly the submissions to it, ordered by score
  descending and, for equal scores, by elapsed time ascending: an entry never stands
  behind one it does not rank before, so an entry with a higher score stands before
  one with a lower score whatever their times; and the rank of each entry is its
  position counted from 1, so the ranks are 1, 2, 3 and so on, never equal.
\<close>

theorem leaderboard_order:
  "let L = snd (getLeaderboard st tid)
   in (\<forall>i j. i < j \<and> j < length L \<longrightarrow> ranks_before (L ! i) (L ! j))
    \<and> (\<forall>i j. i < length L \<and> j < length L
          \<and> stored_value (le_score (L ! j)) < stored_value (le_score (L ! i)) \<longrightarrow> i < j)
    \<and> map rank L = map Suc [0 ..< length L]
    \<and> mset (map entry_key L)
        = mset (map (\<lambda>sub. (studentId sub, score sub, timeSpent sub))
                 (snd (getSubmissionsByTest st tid)))"
proof -
  obtain st' subs where g: "getSubmissionsByTest st tid = (st', subs)"
    by (cases "getSubmissionsByTest st tid")
  define S where "S = array_sort leaderboard_compare (map leaderboard_entry (enumerate 0 subs))"
  define L where "L = map assign_rank (enumerate 0 S)"
  have L: "snd (getLeaderboard st tid) = L"
    by (simp add: getLeaderboard_def g L_def S_def)
  have len: "length L = length S"
    by (simp add: L_def)
  have nth: "L ! i = (S ! i)\<lparr>rank := i + 1\<rparr>" if "i < length S" for i
    using that unfolding L_def by (rule assign_rank_nth)
  have same: "ranks_before (L ! i) (L ! j) = ranks_before (S ! i) (S ! j)"
    if "i < length S" and "j < length S" for i j
    unfolding nth[OF that(1)] nth[OF that(2)] by (simp add: ranks_before_def)
  have sorted: "sorted_wrt ranks_before S"
    unfolding S_def by (rule sorted_array_sort)
  have ord: "ranks_before (L ! i) (L ! j)" if "i < j" and "j < length L" for i j
  proof -
    have j: "j < length S" and i: "i < length S"
      using that len by simp_all
    have "ranks_before (S ! i) (S ! j)"
      using sorted that(1) j by (simp only: sorted_wrt_iff_nth_less)
    then show ?thesis
      by (simp only: same[OF i j])
  qed
  have higher: "i < j" if "i < length L" and "j < length L"
      and "stored_value (le_score (L ! j)) < stored_value (le_score (L ! i))" for i j
  proof (rule ccontr)
    assume "\<not> i < j"
    then consider "i = j" | "j < i"
      by linarith
    then show False
    proof cases
      case 1
      with that(3) show False by simp
    next
      case 2
      then have "ranks_before (L ! j) (L ! i)"
        using that(1) by (rule ord)
      with that(3) show False
        unfolding ranks_before_def by linarith
    qed
  qed
  have ranks: "map rank L = map Suc [0 ..< length L]"
  proof (rule nth_equalityI)
    show "length (map rank L) = length (map Suc [0 ..< length L])"
      by simp
  next
    fix i
    assume "i < length (map rank L)"
    then have i: "i < length S"
      by (simp add: len)
    have "rank (L ! i) = Suc i"
      unfolding nth[OF i] by simp
    then show "map rank L ! i = map Suc [0 ..< length L] ! i"
      using i by (simp add: len)
  qed
  have keys: "mset (map entry_key L)
      = mset (map (\<lambda>sub. (studentId sub, score sub, timeSpent sub))
          (snd (getSubmissionsByTest st tid)))"
    using leaderboard_keys[of st tid] by (simp only: L)
  show ?thesis
    unfolding Let_def L
  proof (intro conjI allI impI)
    fix i j
    assume "i < j \<and> j < length L"
    then show "ranks_before (L ! i) (L ! j)"
      using ord by blast
  next
    fix i j
    assume "i < length L \<and> j < length L
      \<and> stored_value (le_score (L ! j)) < stored_value (le_score (L ! i))"
    then show "i < j"
      using higher by blast
  next
    show "map rank L = map Suc [0 ..< length L]"
      by (rule ranks)
  next
    show "mset (map entry_key L)
      = mset (map (\<lambda>sub. (studentId sub, score sub, timeSpent sub))
          (snd (getSubmissionsByTest st tid)))"
      by (rule keys)
  qed
qed

theorem leaderboard_order_witness:
  "map (\<lambda>e. (le_studentId e, rank e))
     (snd (getLeaderboard
        (fresh_store\<lparr>dsba_submissions :=
           Some [example_submission ''A'' 30 600 [], example_submission ''B'' 30 500 [],
                 example_submission ''C'' 25 100 []]\<rparr>) ''test-1''))
     = [(''B'', 1), (''A'', 2), (''C'', 3)]
   \<and> (let L = snd (getLeaderboard
        (fresh_store\<lparr>dsba_submissions :=
           Some [example_submission ''A'' 30 600 [], example_submission ''B'' 30 500 [],
                 example_submission ''C'' 25 100 []]\<rparr>) ''test-1'')
      in map rank L = map Suc [0 ..< length L] \<and> length L = 3
       \<and> (0::nat) < 1 \<and> 1 < length L \<and> ranks_before (L ! 0) (L ! 1))"
proof -
  define A where "A = example_submission ''A'' 30 600 []"
  define B where "B = example_submission ''B'' 30 500 []"
  define C where "C = example_submission ''C'' 25 100 []"
  define st where "st = fresh_store\<lparr>dsba_submissions := Some [A, B, C]\<rparr>"
  have "dsba_submissions (initializeData st) = Some [A, B, C]"
    by (simp add: st_def initializeData_keeps)
  then have subs: "getSubmissionsByTest st ''test-1'' = (initializeData st, [A, B, C])"
    by (simp add: getSubmissionsByTest_def getSubmissions_def Let_def A_def B_def C_def
        example_submission_fields)
  have sorted: "array_sort leaderboard_compare
      [leaderboard_entry (0, A), leaderboard_entry (Suc 0, B), leaderboard_entry (Suc (Suc 0), C)]
      = [leaderboard_entry (Suc 0, B), leaderboard_entry (0, A), leaderboard_entry (Suc (Suc 0), C)]"
    by (simp add: array_sort_def leaderboard_compare_entries A_def B_def C_def
        example_submission_fields)
  have board: "snd (getLeaderboard st ''test-1'')
      = [assign_rank (0, leaderboard_entry (Suc 0, B)), assign_rank (Suc 0, leaderboard_entry (0, A)),
         assign_rank (Suc (Suc 0), leaderboard_entry (Suc (Suc 0), C))]"
    unfolding getLeaderboard_def subs by (simp add: sorted)
  have v: "map (\<lambda>e. (le_studentId e, rank e)) (snd (getLeaderboard st ''test-1''))
      = [(''B'', 1), (''A'', 2), (''C'', 3)]"
    unfolding board
    by (simp add: assign_rank_fields leaderboard_entry_fields A_def B_def C_def
        example_submission_fields)
  have len: "length (snd (getLeaderboard st ''test-1'')) = 3"
    unfolding board by simp
  note r = leaderboard_order [of st "''test-1''", unfolded Let_def]
  from r have ranks: "map rank (snd (getLeaderboard st ''test-1''))
      = map Suc [0 ..< length (snd (getLeaderboard st ''test-1''))]"
    by blast
  have pos: "(0::nat) < 1 \<and> 1 < length (snd (getLeaderboard st ''test-1''))"
    by (simp add: len)
  with r have first: "ranks_before (snd (getLeaderboard st ''test-1'') ! 0)
      (snd (getLeaderboard st ''test-1'') ! 1)"
    by blast
  from v ranks len pos first show ?thesis
    unfolding st_def A_def B_def C_def Let_def by blast
qed

section \<open>Risk tiers\<close>

lemma count_event_total: "totalEvents (count_event c event) = totalEvents c + 1"
  by (cases "e_type event") (simp_all add: count_event_def Let_def)

lemma count_events_total: "totalEvents (foldl count_event c evs) = totalEvents c + length evs"
  by (induction evs arbitrary: c) (simp_all add: count_event_total)

lemma count_submissions_total:
  "totalEvents (foldl (\<lambda>acc submission. foldl count_event acc (antiCheatEvents submission)) c subs)
     = totalEvents c + sum_list (map (\<lambda>submission. length (antiCheatEvents submission)) subs)"
  by (induction subs arbitrary: c) (simp_all add: count_events_total)

lemma summary_total:
  "totalEvents (calculateAntiCheatSummary sel subs)
     = sum_list (map (\<lambda>submission. length (antiCheatEvents submission)) (select_submissions sel subs))"
  by (simp add: calculateAntiCheatSummary_def Let_def count_submissions_total)

lemma summary_risk:
  "riskLevel (calculateAntiCheatSummary sel subs)
     = aggregate_risk_tier (totalEvents (calculateAntiCheatSummary sel subs))"
  by (simp add: calculateAntiCheatSummary_def Let_def aggregate_risk_tier_def)

lemma profile_risk:
  "p_riskLevel (student_profile tests submission) = student_risk_tier (length (antiCheatEvents submission))"
  "totalViolations (student_profile tests submission) = length (antiCheatEvents submission)"
  "events (student_profile tests submission) = antiCheatEvents submission"
  "p_studentId (student_profile tests submission) = studentId submission"
  by (simp_all add: student_profile_def Let_def student_risk_tier_def)

text \<open>
  C5. The risk tier is a step function of an event count alone. Over the selected
  submissions the tier of the summary is that of the total number of their events:
  \<open>Low\<close> up to 5, \<open>Medium\<close> from 6 to 20, \<open>High\<close> from 21 to 50, \<open>Critical\<close> above, so
  exactly 5 is \<open>Low\<close> and exactly 6 is \<open>Medium\<close>. Every student profile, which exists
  for a submission with at least one event, carries the tier of that submission's
  number of events: \<open>Low\<close> up to 2, \<open>Medium\<close> from 3 to 5, \<open>High\<close> from 6 to 10,
  \<open>Critical\<close> above.
\<close>

theorem risk_tiers:
  "riskLevel (calculateAntiCheatSummary sel subs)
     = aggregate_risk_tier (totalEvents (calculateAntiCheatSummary sel subs))
   \<and> totalEvents (calculateAntiCheatSummary sel subs)
     = sum_list (map (\<lambda>submission. length (antiCheatEvents submission)) (select_submissions sel subs))
   \<and> (\<forall>p\<in>set (generateStudentRiskProfiles sel subs tests).
         p_riskLevel p = student_risk_tier (totalViolations p)
         \<and> totalViolations p = length (events p) \<and> 0 < totalViolations p)
   \<and> (\<forall>n. aggregate_risk_tier n =
         (if n \<le> 5 then Low else if 6 \<le> n \<and> n \<le> 20 then Medium
          else if 21 \<le> n \<and> n \<le> 50 then High else Critical))
   \<and> (\<forall>n. student_risk_tier n =
         (if n \<le> 2 then Low else if 3 \<le> n \<and> n \<le> 5 then Medium
          else if 6 \<le> n \<and> n \<le> 10 then High else Critical))
   \<and> aggregate_risk_tier 5 = Low \<and> aggregate_risk_tier 6 = Medium"
proof -
  have profiles: "\<forall>p\<in>set (generateStudentRiskProfiles sel subs tests).
      p_riskLevel p = student_risk_tier (totalViolations p)
      \<and> totalViolations p = length (events p) \<and> 0 < totalViolations p"
    by (auto simp: generateStudentRiskProfiles_def set_array_sort profile_risk)
  have agg: "\<forall>n. aggregate_risk_tier n =
         (if n \<le> 5 then Low else if 6 \<le> n \<and> n \<le> 20 then Medium
          else if 21 \<le> n \<and> n \<le> 50 then High else Critical)"
    by (simp add: aggregate_risk_tier_def)
  have stu: "\<forall>n. student_risk_tier n =
         (if n \<le> 2 then Low else if 3 \<le> n \<and> n \<le> 5 then Medium
          else if 6 \<le> n \<and> n \<le> 10 then High else Critical)"
    by (simp add: student_risk_tier_def)
  have b: "aggregate_risk_tier 5 = Low \<and> aggregate_risk_tier 6 = Medium"
    by (simp add: aggregate_risk_tier_def)
  from summary_risk[of sel subs] summary_total[of sel subs] profiles agg stu b show ?thesis
    by blast
qed

theorem risk_tiers_witness:
  "map (\<lambda>p. (p_studentId p, totalViolations p, p_riskLevel p))
     (generateStudentRiskProfiles ''all''
        [example_submission ''A'' 30 600 (replicate 2 example_event),
         example_submission ''B'' 30 500 [],
         example_submission ''C'' 25 100 (replicate 3 example_event)] [mock_test])
     = [(''C'', 3, Medium), (''A'', 2, Low)]
   \<and> (\<exists>p. p \<in> set (generateStudentRiskProfiles ''all''
        [example_submission ''A'' 30 600 (replicate 2 example_event),
         example_submission ''B'' 30 500 [],
         example_submission ''C'' 25 100 (replicate 3 example_event)] [mock_test])
        \<and> totalViolations p = 3 \<and> length (events p) = 3 \<and> p_riskLevel p = Medium)
   \<and> totalEvents (calculateAntiCheatSummary ''all''
        [example_submission ''A'' 30 600 (replicate 2 example_event),
         example_submission ''B'' 30 500 [],
         example_submission ''C'' 25 100 (replicate 3 example_event)]) = 5
   \<and> riskLevel (calculateAntiCheatSummary ''all''
        [example_submission ''A'' 30 600 (replicate 2 example_event),
         example_submission ''B'' 30 500 [],
         example_submission ''C'' 25 100 (replicate 3 example_event)]) = Low
   \<and> riskLevel (calculateAntiCheatSummary ''all''
        [example_submission ''C'' 25 100 (replicate 6 example_event)]) = Medium"
proof -
  define A where "A = example_submission ''A'' 30 600 (replicate 2 example_event)"
  define B where "B = example_submission ''B'' 30 500 []"
  define C where "C = example_submission ''C'' 25 100 (replicate 3 example_event)"
  define D where "D = example_submission ''C'' 25 100 (replicate 6 example_event)"
  have sel: "select_submissions ''all'' xs = xs" for xs
    by (simp add: select_submissions_def)
  have n: "length (antiCheatEvents A) = 2" "length (antiCheatEvents B) = 0"
      "length (antiCheatEvents C) = 3" "length (antiCheatEvents D) = 6"
    by (simp_all add: A_def B_def C_def D_def example_submission_fields)
  have ids: "studentId A = ''A''" "studentId C = ''C''"
    by (simp_all add: A_def C_def example_submission_fields)
  note r = risk_tiers [of "''all''" "[A, B, C]" "[mock_test]"]
  note r' = risk_tiers [of "''all''" "[D]" "[mock_test]"]
  from r have t: "totalEvents (calculateAntiCheatSummary ''all'' [A, B, C]) = 5"
    by (simp add: sel n)
  from r t have l: "riskLevel (calculateAntiCheatSummary ''all'' [A, B, C]) = Low"
    by (simp add: aggregate_risk_tier_def)
  from r' have "totalEvents (calculateAntiCheatSummary ''all'' [D]) = 6"
    by (simp add: sel n)
  with r' have m: "riskLevel (calculateAntiCheatSummary ''all'' [D]) = Medium"
    by (simp add: aggregate_risk_tier_def)
  have ne: "antiCheatEvents A \<noteq> []" "antiCheatEvents B = []" "antiCheatEvents C \<noteq> []"
    by (simp_all add: A_def B_def C_def example_submission_fields)
  have g: "generateStudentRiskProfiles ''all'' [A, B, C] [mock_test]
      = [student_profile [mock_test] C, student_profile [mock_test] A]"
    by (simp add: generateStudentRiskProfiles_def sel n ne array_sort_def profile_risk)
  then have p: "map (\<lambda>p. (p_studentId p, totalViolations p, p_riskLevel p))
      (generateStudentRiskProfiles ''all'' [A, B, C] [mock_test]) = [(''C'', 3, Medium), (''A'', 2, Low)]"
    by (simp add: profile_risk n student_risk_tier_def ids)
  have mem: "student_profile [mock_test] C \<in> set (generateStudentRiskProfiles ''all'' [A, B, C] [mock_test])"
    unfolding g by simp
  have three: "totalViolations (student_profile [mock_test] C) = 3"
    by (simp add: profile_risk n)
  from r mem have "p_riskLevel (student_profile [mock_test] C)
        = student_risk_tier (totalViolations (student_profile [mock_test] C))
      \<and> totalViolations (student_profile [mock_test] C) = length (events (student_profile [mock_test] C))"
    by blast
  with three have "length (events (student_profile [mock_test] C)) = 3
      \<and> p_riskLevel (student_profile [mock_test] C) = Medium"
    by (simp add: student_risk_tier_def)
  with mem three have e: "\<exists>p. p \<in> set (generateStudentRiskProfiles ''all'' [A, B, C] [mock_test])
        \<and> totalViolations p = 3 \<and> length (events p) = 3 \<and> p_riskLevel p = Medium"
    by blast
  from p e t l m show ?thesis
    unfolding A_def B_def C_def D_def by blast
qed

section \<open>Outcome attainment\<close>







end
